theory Spec2Isabelle
  imports Complex_Main "HOL-Library.Sublist"
begin

section \<open>Strings and the regular expressions of the heuristics\<close>

text \<open>
  A JavaScript string is a sequence of code units. It is modelled as a \<open>string\<close>
  (a list of 8-bit characters), so the model covers the strings whose code units are
  below 256. The patterns of the source name ASCII characters only; the classes
  \<open>\w\<close>, \<open>\s\<close> and \<open>.\<close> are written out for that range.
\<close>

definition isUpper :: "char \<Rightarrow> bool" where
  "isUpper c = (c \<in> set ''ABCDEFGHIJKLMNOPQRSTUVWXYZ'')"

definition isLower :: "char \<Rightarrow> bool" where
  "isLower c = (c \<in> set ''abcdefghijklmnopqrstuvwxyz'')"

definition isDigit :: "char \<Rightarrow> bool" where
  "isDigit c = (c \<in> set ''0123456789'')"

text \<open>The class \<open>\w\<close>: \<open>[A-Za-z0-9_]\<close>.\<close>

definition isWordChar :: "char \<Rightarrow> bool" where
  "isWordChar c = (isUpper c \<or> isLower c \<or> isDigit c \<or> c = CHR ''_'')"

text \<open>The class \<open>\s\<close> below 256: tab, line feed, vertical tab, form feed, carriage
  return, space and no-break space.\<close>

definition isSpace :: "char \<Rightarrow> bool" where
  "isSpace c = (c \<in> {CHR 0x09, CHR 0x0A, CHR 0x0B, CHR 0x0C, CHR 0x0D, CHR 0x20, CHR 0xA0})"

text \<open>\<open>.\<close> matches every code unit but the line terminators.\<close>

definition isLineTerminator :: "char \<Rightarrow> bool" where
  "isLineTerminator c = (c = CHR 0x0A \<or> c = CHR 0x0D)"

text \<open>\<open>toLowerCase\<close> on the ASCII letters; the other code units below 256 never
  become an ASCII letter, so the substring tests for ASCII needles see no difference.\<close>

definition toLowerChar :: "char \<Rightarrow> char" where
  "toLowerChar c =
     (case map_of (zip ''ABCDEFGHIJKLMNOPQRSTUVWXYZ'' ''abcdefghijklmnopqrstuvwxyz'') c of
        Some l \<Rightarrow> l
      | None \<Rightarrow> c)"

definition toLowerCase :: "string \<Rightarrow> string" where
  "toLowerCase s = map toLowerChar s"

text \<open>\<open>haystack.includes(needle)\<close>: the needle occurs as a contiguous substring.\<close>

definition str_includes :: "string \<Rightarrow> string \<Rightarrow> bool" where
  "str_includes s needle = sublist needle s"

text \<open>The assertion \<open>\b\<close> between two neighbouring positions: exactly one side is a
  word character; beyond either end of the string counts as a non-word character.\<close>

definition wordBoundary :: "char option \<Rightarrow> char option \<Rightarrow> bool" where
  "wordBoundary a b =
     ((case a of None \<Rightarrow> False | Some c \<Rightarrow> isWordChar c) \<noteq>
      (case b of None \<Rightarrow> False | Some c \<Rightarrow> isWordChar c))"

definition headOpt :: "string \<Rightarrow> char option" where
  "headOpt s = (case s of [] \<Rightarrow> None | c # _ \<Rightarrow> Some c)"

text \<open>One alternative \<open>w\<close> of \<open>/\b(w1|w2|...)\b/i\<close> tried at the current position:
  \<open>prev\<close> is the code unit before it, \<open>s\<close> the input from it on. The alternatives are
  given in lower case.\<close>

definition altMatch :: "char option \<Rightarrow> string \<Rightarrow> string \<Rightarrow> bool" where
  "altMatch prev s w =
     (wordBoundary prev (headOpt s) \<and>
      w \<noteq> [] \<and>
      toLowerCase (take (length w) s) = w \<and>
      wordBoundary (Some (last (take (length w) s))) (headOpt (drop (length w) s)))"

text \<open>\<open>/\b(w1|w2|...)\b/i.test(s)\<close>: some position where some alternative matches.\<close>

fun searchWords :: "string list \<Rightarrow> char option \<Rightarrow> string \<Rightarrow> bool" where
  "searchWords ws prev [] = False"
| "searchWords ws prev (c # cs) =
     (list_ex (altMatch prev (c # cs)) ws \<or> searchWords ws (Some c) cs)"

text \<open>\<open>/\?.*\?/.test(s)\<close>: a question mark, then any run without a line terminator,
  then another question mark.\<close>

fun restHasQuestion :: "string \<Rightarrow> bool" where
  "restHasQuestion [] = False"
| "restHasQuestion (c # cs) =
     (c = CHR ''?'' \<or> (\<not> isLineTerminator c \<and> restHasQuestion cs))"

fun multipleQuestions :: "string \<Rightarrow> bool" where
  "multipleQuestions [] = False"
| "multipleQuestions (c # cs) =
     ((c = CHR ''?'' \<and> restHasQuestion cs) \<or> multipleQuestions cs)"

section \<open>Data model (src/shared/types.ts)\<close>

datatype TaskType =
    extraction
  | classification
  | planning
  | code_review
  | security_analysis
  | workflow_compilation
  | error_recovery

datatype RecommendedModel = none | ollama | claude

datatype ModelUsed = used_ollama | used_claude

text \<open>
  \<open>AgentTask\<close>. An optional field is an \<open>option\<close>; the optional flags \<open>expectsJSON\<close>
  and \<open>isRetry\<close> are only ever tested for truthiness, so an absent flag is \<open>False\<close>.
  The elements of \<open>tools\<close> are never inspected (\<open>unknown[]\<close>); they are tool names here.
  The fields \<open>type\<close> and \<open>context\<close> are \<open>taskType\<close> and \<open>taskContext\<close>; the fields of
  \<open>factors\<close> carry the prefix \<open>f_\<close>.
\<close>

record AgentTask =
  taskType :: TaskType
  prompt :: string
  taskContext :: "string option"
  tools :: "string list option"
  expectsJSON :: bool
  requiredFields :: "string list option"
  minLength :: "int option"
  isRetry :: bool

record AgentResponse =
  content :: string
  modelUsed :: ModelUsed
  tokensInput :: int
  tokensOutput :: int
  cost :: real

record Factors =
  f_taskType :: int
  f_contextSize :: int
  f_ambiguity :: int
  f_reasoning :: int
  f_toolCount :: int

text \<open>\<open>ComplexityScore\<close> without its \<open>reasoning\<close> text, which is built by
  \<open>explainScore\<close> for the log line and decides nothing.\<close>

record ComplexityScore =
  score :: int
  factors :: Factors
  recommendedModel :: RecommendedModel

section \<open>ComplexityAnalyzer (src/intelligence/complexity.ts)\<close>

definition typeScores :: "(TaskType \<times> int) list" where
  "typeScores =
     [(extraction, 2), (classification, 1), (planning, 4), (code_review, 8),
      (security_analysis, 9), (workflow_compilation, 7), (error_recovery, 5)]"

text \<open>\<open>typeScores[task.type] || 3\<close>: a missing entry and the entry 0 both give 3.\<close>

definition typeScore :: "TaskType \<Rightarrow> int" where
  "typeScore t = (case map_of typeScores t of None \<Rightarrow> 3 | Some n \<Rightarrow> if n = 0 then 3 else n)"

definition detectAmbiguity :: "string \<Rightarrow> bool" where
  "detectAmbiguity p =
     (searchWords [''maybe'', ''might'', ''could'', ''should'', ''probably''] None p \<or>
      multipleQuestions p \<or>
      searchWords [''or'', ''either''] None p)"

definition getRecommendedModel :: "int \<Rightarrow> RecommendedModel" where
  "getRecommendedModel s = (if s < 2 then none else if s < 7 then ollama else claude)"

text \<open>The context-size term. \<open>if (task.context)\<close> is false for an absent context and
  for the empty string.\<close>

definition contextSize :: "string option \<Rightarrow> int" where
  "contextSize c =
     (case c of
        None \<Rightarrow> 0
      | Some text \<Rightarrow>
          if text = [] then 0
          else if length text > 10000 then 3
          else if length text > 5000 then 2
          else if length text > 2000 then 1
          else 0)"

definition analyze :: "AgentTask \<Rightarrow> ComplexityScore" where
  "analyze task =
     (let f1 = typeScore (taskType task);
          f2 = contextSize (taskContext task);
          f3 = (if detectAmbiguity (prompt task) then 2 else 0);
          f4 = (if taskType task = planning \<or> taskType task = error_recovery then 3 else 0);
          f5 = (case tools task of None \<Rightarrow> 0 | Some ts \<Rightarrow> if length ts > 3 then 1 else 0);
          retry = (if isRetry task then 2 else 0);
          total = f1 + f2 + f3 + f4 + f5 + retry
      in \<lparr> score = total,
           factors = \<lparr> f_taskType = f1, f_contextSize = f2, f_ambiguity = f3,
                       f_reasoning = f4, f_toolCount = f5 \<rparr>,
           recommendedModel = getRecommendedModel total \<rparr>)"

section \<open>QualityValidator (src/intelligence/quality.ts)\<close>

text \<open>
  \<open>text.match(/https?:\/\/[^\s]+/g)\<close>. At a position the pattern matches when the input
  goes on with \<open>http://\<close> or \<open>https://\<close> and at least one non-space code unit; the
  greedy class then takes the whole run of non-space code units. The result is the
  match and the input after it, where the search for the next match starts.
\<close>

definition urlBody :: "nat \<Rightarrow> string \<Rightarrow> (string \<times> string) option" where
  "urlBody n s =
     (let run = takeWhile (\<lambda>c. \<not> isSpace c) (drop n s)
      in if run = [] then None
         else Some (take n s @ run, dropWhile (\<lambda>c. \<not> isSpace c) (drop n s)))"

definition matchUrl :: "string \<Rightarrow> (string \<times> string) option" where
  "matchUrl s =
     (if prefix ''https://'' s then urlBody 8 s
      else if prefix ''http://'' s then urlBody 7 s
      else None)"

function matchAllUrls :: "string \<Rightarrow> string list" where
  "matchAllUrls [] = []"
| "matchAllUrls (c # cs) =
     (case matchUrl (c # cs) of
        Some (m, rest) \<Rightarrow> m # matchAllUrls rest
      | None \<Rightarrow> matchAllUrls cs)"
  by pat_completeness auto
termination
proof (relation "measure length")
  show "wf (measure length)" by simp
next
  fix c :: char and cs :: string and x2 :: "string \<times> string" and m rest :: string
  assume "matchUrl (c # cs) = Some x2" and "(m, rest) = x2"
  then have "rest = dropWhile (\<lambda>c. \<not> isSpace c) (drop 8 (c # cs)) \<or>
             rest = dropWhile (\<lambda>c. \<not> isSpace c) (drop 7 (c # cs))"
    by (auto simp: matchUrl_def urlBody_def Let_def split: if_splits)
  moreover have "length (dropWhile (\<lambda>c. \<not> isSpace c) (drop 8 (c # cs))) \<le> length cs"
    using length_dropWhile_le [of "\<lambda>c. \<not> isSpace c" "drop 7 cs"] by simp
  moreover have "length (dropWhile (\<lambda>c. \<not> isSpace c) (drop 7 (c # cs))) \<le> length cs"
    using length_dropWhile_le [of "\<lambda>c. \<not> isSpace c" "drop 6 cs"] by simp
  ultimately show "(rest, c # cs) \<in> measure length" by auto
next
  fix c :: char and cs :: string
  show "(cs, c # cs) \<in> measure length" by simp
qed

text \<open>
  \<open>text.match(/\b[A-Z][a-z]+\b/g)\<close>. At a position the pattern matches when a word
  boundary precedes an upper-case letter, at least one lower-case letter follows, and a
  word boundary follows the whole run of lower-case letters. (A shorter run never ends at
  a word boundary: a lower-case letter stands on both sides.) \<open>prev\<close> is the code unit
  before the position.
\<close>

definition matchWord :: "char option \<Rightarrow> string \<Rightarrow> (string \<times> string) option" where
  "matchWord prev s =
     (case s of
        [] \<Rightarrow> None
      | c # cs \<Rightarrow>
          (let run = takeWhile isLower cs; rest = dropWhile isLower cs
           in if wordBoundary prev (Some c) \<and> isUpper c \<and> run \<noteq> [] \<and>
                 wordBoundary (Some (last run)) (headOpt rest)
              then Some (c # run, rest)
              else None))"

function matchAllWords :: "char option \<Rightarrow> string \<Rightarrow> string list" where
  "matchAllWords prev [] = []"
| "matchAllWords prev (c # cs) =
     (case matchWord prev (c # cs) of
        Some (m, rest) \<Rightarrow> m # matchAllWords (Some (last m)) rest
      | None \<Rightarrow> matchAllWords (Some c) cs)"
  by pat_completeness auto
termination
proof (relation "measure (\<lambda>(prev, s). length s)")
  show "wf (measure (\<lambda>(prev, s). length s))" by simp
next
  fix prev :: "char option" and c :: char and cs :: string
    and x2 :: "string \<times> string" and m rest :: string
  assume "matchWord prev (c # cs) = Some x2" and "(m, rest) = x2"
  then have "rest = dropWhile isLower cs"
    by (auto simp: matchWord_def Let_def split: if_splits)
  then show "((Some (last m), rest), (prev, c # cs)) \<in> measure (\<lambda>(prev, s). length s)"
    using length_dropWhile_le [of isLower cs] by simp
next
  fix prev :: "char option" and c :: char and cs :: string
  show "((Some c, cs), (prev, c # cs)) \<in> measure (\<lambda>(prev, s). length s)" by simp
qed

text \<open>\<open>[...new Set(entities)]\<close>: every element once, in the order of first occurrence.\<close>

definition dedupe :: "string list \<Rightarrow> string list" where
  "dedupe xs = rev (remdups (rev xs))"

definition extractEntities :: "string \<Rightarrow> string list" where
  "extractEntities text = dedupe (matchAllUrls text @ matchAllWords None text)"

text \<open>The comparison \<open>hallucinated.length > responseEntities.length * 0.5\<close> is between
  a whole number and a multiple of one half, which floating point represents exactly.\<close>

definition detectHallucination :: "AgentResponse \<Rightarrow> AgentTask \<Rightarrow> bool" where
  "detectHallucination response task =
     (let c = toLowerCase (content response)
      in if str_includes c ''todo'' \<or> str_includes c ''fixme'' then True
         else if str_includes c ''example.com'' \<or> str_includes c ''placeholder'' then True
         else (case taskContext task of
                 None \<Rightarrow> False
               | Some ctx \<Rightarrow>
                   if ctx = [] then False
                   else (let responseEntities = extractEntities (content response);
                             contextEntities = extractEntities ctx;
                             hallucinated = filter (\<lambda>e. e \<notin> set contextEntities) responseEntities
                         in real (length hallucinated) > real (length responseEntities) * 0.5)))"

text \<open>
  \<open>JSON.parse\<close> and the operator \<open>in\<close> belong to the JavaScript runtime, not to the
  repository; the validator takes them as parameters. \<open>JSON_parse s = None\<close> is the
  thrown \<open>SyntaxError\<close>; \<open>hasProperty field v = None\<close> is the \<open>TypeError\<close> that
  \<open>field in v\<close> throws when the parsed value \<open>v\<close> is not an object.
\<close>

record 'v JsRuntime =
  JSON_parse :: "string \<Rightarrow> 'v option"
  hasProperty :: "string \<Rightarrow> 'v \<Rightarrow> bool option"

text \<open>\<open>requiredFields.every(field => field in parsed)\<close>: stops at the first field that
  is missing; \<open>None\<close> when the callback throws.\<close>

fun everyField :: "'v JsRuntime \<Rightarrow> 'v \<Rightarrow> string list \<Rightarrow> bool option" where
  "everyField rt parsed [] = Some True"
| "everyField rt parsed (field # others) =
     (case hasProperty rt field parsed of
        None \<Rightarrow> None
      | Some False \<Rightarrow> Some False
      | Some True \<Rightarrow> everyField rt parsed others)"

text \<open>The \<open>try\<close> block of \<open>validate\<close>: \<open>True\<close> when it makes \<open>validate\<close> return false,
  by \<open>return false\<close> or through the \<open>catch\<close>.\<close>

definition jsonCheckFails :: "'v JsRuntime \<Rightarrow> AgentResponse \<Rightarrow> AgentTask \<Rightarrow> bool" where
  "jsonCheckFails rt response task =
     (case JSON_parse rt (content response) of
        None \<Rightarrow> True
      | Some parsed \<Rightarrow>
          (case requiredFields task of
             None \<Rightarrow> False
           | Some required \<Rightarrow>
               (case everyField rt parsed required of
                  None \<Rightarrow> True
                | Some hasAll \<Rightarrow> \<not> hasAll)))"

text \<open>\<open>task.minLength && response.content.length < task.minLength\<close>: a minimum length
  of 0 is falsy.\<close>

definition tooShort :: "AgentResponse \<Rightarrow> AgentTask \<Rightarrow> bool" where
  "tooShort response task =
     (case minLength task of
        None \<Rightarrow> False
      | Some m \<Rightarrow> m \<noteq> 0 \<and> int (length (content response)) < m)"

definition validate :: "'v JsRuntime \<Rightarrow> AgentResponse \<Rightarrow> AgentTask \<Rightarrow> bool" where
  "validate rt response task =
     (if expectsJSON task \<and> jsonCheckFails rt response task then False
      else if tooShort response task then False
      else if detectHallucination response task then False
      else True)"

section \<open>Providers (src/intelligence/providers/base.ts)\<close>

datatype Error = Error string

record ExecuteOptions =
  temperature :: "real option"
  timeout :: "int option"
  maxTokens :: "int option"

text \<open>
  An \<open>LLMProvider\<close> is an external service; it is given by what its two methods answer
  while one task is routed. \<open>isAvailable\<close> of both providers of the repository catches
  every failure and answers \<open>false\<close>, so its outcome is a truth value; the router asks
  at most once. \<open>execute\<close> answers with a response or throws (\<open>Inl\<close>). Its first
  argument here is the number of earlier \<open>execute\<close> calls to the same provider for this
  task, so a provider may answer a second call differently; the last argument is the
  optional \<open>options\<close>.
\<close>

record LLMProvider =
  provider_isAvailable :: bool
  provider_execute :: "nat \<Rightarrow> AgentTask \<Rightarrow> ExecuteOptions option \<Rightarrow> Error + AgentResponse"

record RouterConfig =
  ollamaFallback :: bool
  ollamaTimeout :: int
  maxCostPerExecution :: real

text \<open>What the router does to its collaborators, in order.\<close>

datatype Call =
    ollama_isAvailable
  | ollama_execute
  | claude_isAvailable
  | claude_execute
  | recordUsage AgentResponse

type_synonym Outcome = "Call list \<times> (Error + AgentResponse)"

section \<open>IntelligenceRouter (src/intelligence/router.ts)\<close>

definition executeWithOllama :: "RouterConfig \<Rightarrow> LLMProvider \<Rightarrow> AgentTask \<Rightarrow> Outcome" where
  "executeWithOllama config ollamaP task =
     (if \<not> provider_isAvailable ollamaP
      then ([ollama_isAvailable], Inl (Error ''Ollama not available''))
      else ([ollama_isAvailable, ollama_execute],
            provider_execute ollamaP 0 task
              (Some \<lparr> temperature = Some 0.1, timeout = Some (ollamaTimeout config),
                      maxTokens = None \<rparr>)))"

definition executeWithClaude :: "LLMProvider \<Rightarrow> AgentTask \<Rightarrow> Outcome" where
  "executeWithClaude claudeP task = ([claude_execute], provider_execute claudeP 0 task None)"

text \<open>\<open>first\<close>, then \<open>second\<close>: the calls of both, the result of the second.\<close>

definition andThen :: "Call list \<Rightarrow> Outcome \<Rightarrow> Outcome" where
  "andThen calls out = (calls @ fst out, snd out)"

text \<open>\<open>IntelligenceRouter.execute\<close> of the implementation plan.\<close>

definition execute ::
  "'v JsRuntime \<Rightarrow> RouterConfig \<Rightarrow> LLMProvider \<Rightarrow> LLMProvider \<Rightarrow> AgentTask \<Rightarrow> Outcome" where
  "execute rt config ollamaP claudeP task =
     (let sc = analyze task
      in if score sc < 2
         then ([], Inl (Error ''Deterministic tasks should not use LLM router''))
         else if score sc < 6 then executeWithOllama config ollamaP task
         else if score sc < 8 then
           (if ollamaFallback config then
              (case executeWithOllama config ollamaP task of
                 (calls, Inr result) \<Rightarrow>
                   if validate rt result task then (calls, Inr result)
                   else andThen calls (executeWithClaude claudeP task)
               | (calls, Inl error) \<Rightarrow> andThen calls (executeWithClaude claudeP task))
            else executeWithClaude claudeP task)
         else executeWithClaude claudeP task)"

text \<open>
  \<open>execute\<close> as the router specification lists it under "Code Flow". The body of its
  \<open>try\<close> either returns (\<open>Some\<close>) or falls through to the Claude call after it
  (\<open>None\<close>). The \<open>return await this.claude.execute(task)\<close> for an unavailable Ollama
  stands inside the \<open>try\<close>, so an error of that call is caught as well and Claude is
  called a second time. \<open>recordUsage\<close> is not defined in the sources; it is listed among
  the calls and taken not to throw.
\<close>

definition tryOllama ::
  "'v JsRuntime \<Rightarrow> RouterConfig \<Rightarrow> LLMProvider \<Rightarrow> LLMProvider \<Rightarrow> AgentTask \<Rightarrow>
     Call list \<times> AgentResponse option" where
  "tryOllama rt config ollamaP claudeP task =
     (if \<not> provider_isAvailable ollamaP then
        (case provider_execute claudeP 0 task None of
           Inr result \<Rightarrow> ([ollama_isAvailable, claude_execute], Some result)
         | Inl error \<Rightarrow> ([ollama_isAvailable, claude_execute], None))
      else
        (case provider_execute ollamaP 0 task
                (Some \<lparr> temperature = Some 0.1, timeout = Some (ollamaTimeout config),
                        maxTokens = None \<rparr>) of
           Inl error \<Rightarrow> ([ollama_isAvailable, ollama_execute], None)
         | Inr result \<Rightarrow>
             if validate rt result task
             then ([ollama_isAvailable, ollama_execute, recordUsage result], Some result)
             else ([ollama_isAvailable, ollama_execute], None)))"

definition execute_codeflow ::
  "'v JsRuntime \<Rightarrow> RouterConfig \<Rightarrow> LLMProvider \<Rightarrow> LLMProvider \<Rightarrow> AgentTask \<Rightarrow> Outcome" where
  "execute_codeflow rt config ollamaP claudeP task =
     (let sc = analyze task; model = recommendedModel sc
      in if model = none
         then ([], Inl (Error ''Task is deterministic, should not use LLM router''))
         else
           (let (calls, returned) =
                  (if (model = ollama \<or> score sc < 8) \<and> ollamaFallback config
                   then tryOllama rt config ollamaP claudeP task
                   else ([], None))
            in case returned of
                 Some result \<Rightarrow> (calls, Inr result)
               | None \<Rightarrow>
                   (case provider_execute claudeP (count_list calls claude_execute) task None of
                      Inr result \<Rightarrow> (calls @ [claude_execute, recordUsage result], Inr result)
                    | Inl error \<Rightarrow> (calls @ [claude_execute], Inl error))))"

section \<open>Cost ledger (StateManager.recordCost, table cost_tracking)\<close>





section \<open>Notions used in the statements\<close>

text \<open>The character length of the optional context; an absent context has length 0.\<close>

definition contextLength :: "string option \<Rightarrow> nat" where
  "contextLength c = (case c of None \<Rightarrow> 0 | Some text \<Rightarrow> length text)"

text \<open>The context-size bucket as a function of that length.\<close>

definition bucket :: "nat \<Rightarrow> int" where
  "bucket n = (if n > 10000 then 3 else if n > 5000 then 2 else if n > 2000 then 1 else 0)"

text \<open>The placeholder test of \<open>detectHallucination\<close>: one of the four markers occurs in
  the lower-cased content.\<close>

definition hasPlaceholder :: "AgentResponse \<Rightarrow> bool" where
  "hasPlaceholder response =
     (let c = toLowerCase (content response)
      in str_includes c ''todo'' \<or> str_includes c ''fixme'' \<or>
         str_includes c ''example.com'' \<or> str_includes c ''placeholder'')"

text \<open>The entities of the response that are not among the entities of the context.\<close>

definition unmatchedEntities :: "AgentResponse \<Rightarrow> string \<Rightarrow> string list" where
  "unmatchedEntities response ctx =
     filter (\<lambda>e. e \<notin> set (extractEntities ctx)) (extractEntities (content response))"





section \<open>Concrete inputs\<close>

definition exampleTask :: "TaskType \<Rightarrow> string \<Rightarrow> AgentTask" where
  "exampleTask kind text =
     \<lparr> taskType = kind, prompt = text, taskContext = None, tools = None,
       expectsJSON = False, requiredFields = None, minLength = None, isRetry = False \<rparr>"

definition exampleResponse :: "ModelUsed \<Rightarrow> string \<Rightarrow> AgentResponse" where
  "exampleResponse m text =
     \<lparr> content = text, modelUsed = m, tokensInput = 12, tokensOutput = 7,
       cost = (if m = used_claude then 0.003 else 0) \<rparr>"

text \<open>A runtime for the examples: a parsed value is the list of the property names of
  an object, and the parser accepts two documents.\<close>

definition exampleRuntime :: "string list JsRuntime" where
  "exampleRuntime =
     \<lparr> JSON_parse = (\<lambda>s. if s = ''{\"name\":\"repo\"}'' then Some [''name'']
                         else if s = ''{}'' then Some []
                         else None),
       hasProperty = (\<lambda>field v. Some (field \<in> set v)) \<rparr>"

text \<open>A provider that is available and answers every task with the given text, and one
  that is available and throws on every \<open>execute\<close>.\<close>

definition answering :: "ModelUsed \<Rightarrow> string \<Rightarrow> LLMProvider" where
  "answering m text =
     \<lparr> provider_isAvailable = True,
       provider_execute = (\<lambda>n task options. Inr (exampleResponse m text)) \<rparr>"

definition throwing :: LLMProvider where
  "throwing =
     \<lparr> provider_isAvailable = True,
       provider_execute = (\<lambda>n task options. Inl (Error ''connect ECONNREFUSED'')) \<rparr>"

definition exampleConfig :: RouterConfig where
  "exampleConfig = \<lparr> ollamaFallback = True, ollamaTimeout = 5000, maxCostPerExecution = 0.1 \<rparr>"

text \<open>The task of the router specification's test "should fallback to Claude on Ollama
  quality failure".\<close>

definition extractDataTask :: AgentTask where
  "extractDataTask = (exampleTask extraction ''Extract data'')\<lparr>expectsJSON := True\<rparr>"



section \<open>ComplexityAnalyzer: properties\<close>

lemma typeScore_simps:
  "typeScore extraction = 2" "typeScore classification = 1" "typeScore planning = 4"
  "typeScore code_review = 8" "typeScore security_analysis = 9"
  "typeScore workflow_compilation = 7" "typeScore error_recovery = 5"
  by (simp_all add: typeScore_def typeScores_def)

lemma score_analyze:
  "score (analyze task) =
     typeScore (taskType task) + contextSize (taskContext task) +
     (if detectAmbiguity (prompt task) then 2 else 0) +
     (if taskType task = planning \<or> taskType task = error_recovery then 3 else 0) +
     (case tools task of None \<Rightarrow> 0 | Some ts \<Rightarrow> if length ts > 3 then 1 else 0) +
     (if isRetry task then 2 else 0)"
  by (simp add: analyze_def Let_def)

lemma recommendedModel_analyze:
  "recommendedModel (analyze task) = getRecommendedModel (score (analyze task))"
  by (simp add: analyze_def Let_def)

lemma contextSize_bucket: "contextSize c = bucket (contextLength c)"
  by (auto simp: contextSize_def bucket_def contextLength_def split: option.splits)

lemma bucket_mono: "m \<le> n \<Longrightarrow> bucket m \<le> bucket n"
  by (simp add: bucket_def)

text \<open>
  C3, as stated: with no context, no ambiguity marker, no tools and no retry, the total is
  the base score of the kind. A planning task refutes it: its base score is 4 and its
  total is 7, because the reasoning term adds 3.
\<close>

theorem C3_planning_counterexample:
  "taskContext (exampleTask planning ''Plan it'') = None \<and>
   \<not> detectAmbiguity (prompt (exampleTask planning ''Plan it'')) \<and>
   tools (exampleTask planning ''Plan it'') = None \<and>
   \<not> isRetry (exampleTask planning ''Plan it'') \<and>
   typeScore (taskType (exampleTask planning ''Plan it'')) = 4 \<and>
   score (analyze (exampleTask planning ''Plan it'')) = 7"
  by code_simp

text \<open>
  C3, amended: for a task with no context, a prompt without ambiguity markers, no
  declared tools and no retry flag, the total is the base score of its kind
  (classification 1, extraction 2, workflow-compilation 7, code-review 8,
  security-analysis 9), and the base score plus the reasoning term 3 for planning
  (4 + 3) and error-recovery (5 + 3).
\<close>

theorem C3_total_without_bonuses:
  assumes "taskContext task = None"
    and "\<not> detectAmbiguity (prompt task)"
    and "tools task = None \<or> tools task = Some []"
    and "\<not> isRetry task"
  shows "score (analyze task) =
           (case taskType task of
              classification \<Rightarrow> 1
            | extraction \<Rightarrow> 2
            | planning \<Rightarrow> 4 + 3
            | error_recovery \<Rightarrow> 5 + 3
            | workflow_compilation \<Rightarrow> 7
            | code_review \<Rightarrow> 8
            | security_analysis \<Rightarrow> 9)"
  using assms
  by (cases "taskType task") (auto simp: score_analyze typeScore_simps contextSize_def)

text \<open>Witness of C3 (amended): an error-recovery task, total 8.\<close>

theorem C3_total_without_bonuses_witness:
  "taskContext (exampleTask error_recovery ''Why did it fail'') = None \<and>
   \<not> detectAmbiguity (prompt (exampleTask error_recovery ''Why did it fail'')) \<and>
   (tools (exampleTask error_recovery ''Why did it fail'') = None \<or>
    tools (exampleTask error_recovery ''Why did it fail'') = Some []) \<and>
   \<not> isRetry (exampleTask error_recovery ''Why did it fail'') \<and>
   score (analyze (exampleTask error_recovery ''Why did it fail'')) = 8"
proof -
  let ?t = "exampleTask error_recovery ''Why did it fail''"
  have h1: "taskContext ?t = None" by (simp add: exampleTask_def)
  have h2: "\<not> detectAmbiguity (prompt ?t)" by code_simp
  have h3: "tools ?t = None \<or> tools ?t = Some []" by (simp add: exampleTask_def)
  have h4: "\<not> isRetry ?t" by (simp add: exampleTask_def)
  have k: "taskType ?t = error_recovery" by (simp add: exampleTask_def)
  have "score (analyze ?t) = 8"
    using C3_total_without_bonuses [OF h1 h2 h3 h4] by (simp add: k)
  with h1 h2 h3 h4 show ?thesis by blast
qed

text \<open>
  C4: the recommendation is a function of the total alone: below 2 it is \<open>none\<close>, from 2
  and below 7 it is \<open>ollama\<close>, from 7 on it is \<open>claude\<close>; the totals 1, 2, 6, 7, 8 give
  \<open>none\<close>, \<open>ollama\<close>, \<open>ollama\<close>, \<open>claude\<close>, \<open>claude\<close>.
\<close>

theorem C4_recommendation_thresholds:
  "recommendedModel (analyze task) = getRecommendedModel (score (analyze task)) \<and>
   (s < 2 \<longrightarrow> getRecommendedModel s = none) \<and>
   (2 \<le> s \<and> s < 7 \<longrightarrow> getRecommendedModel s = ollama) \<and>
   (7 \<le> s \<longrightarrow> getRecommendedModel s = claude) \<and>
   map getRecommendedModel [1, 2, 6, 7, 8] = [none, ollama, ollama, claude, claude]"
  by (simp add: recommendedModel_analyze getRecommendedModel_def)

text \<open>Witness of C4: one total in each of the three ranges.\<close>

theorem C4_recommendation_thresholds_witness:
  "(0::int) < 2 \<and> getRecommendedModel 0 = none \<and>
   (2::int) \<le> 5 \<and> (5::int) < 7 \<and> getRecommendedModel 5 = ollama \<and>
   (7::int) \<le> 12 \<and> getRecommendedModel 12 = claude"
  using C4_recommendation_thresholds [of "exampleTask extraction ''Extract''" 0]
        C4_recommendation_thresholds [of "exampleTask extraction ''Extract''" 5]
        C4_recommendation_thresholds [of "exampleTask extraction ''Extract''" 12]
  by simp

text \<open>
  C7: with kind, prompt, tools and retry flag fixed, the total does not decrease when the
  context gets longer; the context term is 0 up to 2000 characters, 1 above 2000, 2 above
  5000 and 3 above 10000 (the highest bucket that applies), and the total is the total
  without context plus that term.
\<close>

theorem C7_score_monotone_in_context_length:
  assumes "contextLength c1 \<le> contextLength c2"
  shows "score (analyze (task\<lparr>taskContext := c1\<rparr>)) \<le>
           score (analyze (task\<lparr>taskContext := c2\<rparr>)) \<and>
         f_contextSize (factors (analyze (task\<lparr>taskContext := c1\<rparr>))) =
           (if contextLength c1 > 10000 then 3 else if contextLength c1 > 5000 then 2
            else if contextLength c1 > 2000 then 1 else 0) \<and>
         score (analyze (task\<lparr>taskContext := c1\<rparr>)) =
           score (analyze (task\<lparr>taskContext := None\<rparr>)) +
           f_contextSize (factors (analyze (task\<lparr>taskContext := c1\<rparr>)))"
proof -
  have f: "f_contextSize (factors (analyze (task\<lparr>taskContext := c\<rparr>))) =
           bucket (contextLength c)" for c
    by (simp add: analyze_def Let_def contextSize_bucket)
  have s: "score (analyze (task\<lparr>taskContext := c\<rparr>)) =
           score (analyze (task\<lparr>taskContext := None\<rparr>)) + bucket (contextLength c)" for c
    by (simp add: score_analyze contextSize_bucket bucket_def contextLength_def)
  have "bucket (contextLength c1) \<le> bucket (contextLength c2)"
    by (rule bucket_mono [OF assms])
  with s [of c1] s [of c2]
  have le: "score (analyze (task\<lparr>taskContext := c1\<rparr>)) \<le>
            score (analyze (task\<lparr>taskContext := c2\<rparr>))"
    by linarith
  have b: "f_contextSize (factors (analyze (task\<lparr>taskContext := c1\<rparr>))) =
           (if contextLength c1 > 10000 then 3 else if contextLength c1 > 5000 then 2
            else if contextLength c1 > 2000 then 1 else 0)"
    by (simp add: f bucket_def)
  have e: "score (analyze (task\<lparr>taskContext := c1\<rparr>)) =
           score (analyze (task\<lparr>taskContext := None\<rparr>)) +
           f_contextSize (factors (analyze (task\<lparr>taskContext := c1\<rparr>)))"
    using s [of c1] f [of c1] by linarith
  from le b e show ?thesis by blast
qed

text \<open>Witness of C7: a context of 2001 characters against one of 5001.\<close>

theorem C7_score_monotone_in_context_length_witness:
  "contextLength (Some (replicate 2001 CHR ''x'')) \<le> contextLength (Some (replicate 5001 CHR ''x'')) \<and>
   score (analyze ((exampleTask extraction ''Extract'')\<lparr>taskContext := Some (replicate 2001 CHR ''x'')\<rparr>)) \<le>
   score (analyze ((exampleTask extraction ''Extract'')\<lparr>taskContext := Some (replicate 5001 CHR ''x'')\<rparr>)) \<and>
   f_contextSize (factors (analyze ((exampleTask extraction ''Extract'')\<lparr>taskContext := Some (replicate 2001 CHR ''x'')\<rparr>))) = 1"
proof -
  have h: "contextLength (Some (replicate 2001 CHR ''x'')) \<le>
           contextLength (Some (replicate 5001 CHR ''x''))"
    by (simp add: contextLength_def)
  have n: "contextLength (Some (replicate 2001 CHR ''x'')) = 2001"
    by (simp add: contextLength_def)
  from C7_score_monotone_in_context_length [OF h, of "exampleTask extraction ''Extract''"] h
  show ?thesis unfolding n by simp
qed

section \<open>QualityValidator: properties\<close>

lemma detectHallucination_eq:
  "detectHallucination response task \<longleftrightarrow>
     hasPlaceholder response \<or>
     (case taskContext task of
        None \<Rightarrow> False
      | Some ctx \<Rightarrow> ctx \<noteq> [] \<and>
          length (extractEntities (content response)) <
            2 * length (unmatchedEntities response ctx))"
  by (auto simp: detectHallucination_def hasPlaceholder_def unmatchedEntities_def Let_def
           split: option.splits)

lemma validate_eq:
  "validate rt response task \<longleftrightarrow>
     \<not> (expectsJSON task \<and> jsonCheckFails rt response task) \<and>
     \<not> tooShort response task \<and> \<not> detectHallucination response task"
  by (simp add: validate_def)






text \<open>
  C10: a response whose content has no entity never fails the entity check, with or
  without a context: the hallucination check then fails exactly when a placeholder marker
  occurs, and validation fails only through the structured-output check, the length check
  or a placeholder marker.
\<close>

theorem C10_no_entities_never_hallucinated:
  assumes "extractEntities (content response) = []"
  shows "(detectHallucination response task \<longleftrightarrow> hasPlaceholder response) \<and>
         (validate rt response task \<longleftrightarrow>
            \<not> (expectsJSON task \<and> jsonCheckFails rt response task) \<and>
            \<not> tooShort response task \<and> \<not> hasPlaceholder response)"
  using assms
  by (auto simp: validate_eq detectHallucination_eq unmatchedEntities_def split: option.splits)

text \<open>Witness of C10: a response without entities against a context with two.\<close>

theorem C10_no_entities_never_hallucinated_witness:
  "extractEntities (content (exampleResponse used_ollama ''all good'')) = [] \<and>
   taskContext ((exampleTask extraction ''Go'')\<lparr>taskContext := Some ''Alice met Bob''\<rparr>) =
     Some ''Alice met Bob'' \<and>
   \<not> hasPlaceholder (exampleResponse used_ollama ''all good'') \<and>
   \<not> detectHallucination (exampleResponse used_ollama ''all good'')
       ((exampleTask extraction ''Go'')\<lparr>taskContext := Some ''Alice met Bob''\<rparr>)"
proof -
  let ?t = "(exampleTask extraction ''Go'')\<lparr>taskContext := Some ''Alice met Bob''\<rparr>"
  let ?r = "exampleResponse used_ollama ''all good''"
  have h: "extractEntities (content ?r) = []" by code_simp
  have c: "taskContext ?t = Some ''Alice met Bob''" by (simp add: exampleTask_def)
  have p: "\<not> hasPlaceholder ?r" by code_simp
  have d: "\<not> detectHallucination ?r ?t"
    using C10_no_entities_never_hallucinated [OF h, of ?t exampleRuntime] p by blast
  from h c p d show ?thesis by blast
qed

section \<open>IntelligenceRouter: properties\<close>

text \<open>From a total of 8 on, both versions of \<open>execute\<close> call Claude and nothing else of
  the providers.\<close>

lemma execute_complex:
  "8 \<le> score (analyze task) \<Longrightarrow>
   execute rt config ollamaP claudeP task =
     ([claude_execute], provider_execute claudeP 0 task None)"
  by (simp add: execute_def Let_def executeWithClaude_def)

lemma execute_codeflow_complex:
  assumes "8 \<le> score (analyze task)"
  shows "execute_codeflow rt config ollamaP claudeP task =
           (case provider_execute claudeP 0 task None of
              Inr result \<Rightarrow> ([claude_execute, recordUsage result], Inr result)
            | Inl error \<Rightarrow> ([claude_execute], Inl error))"
proof -
  have "recommendedModel (analyze task) = claude"
    using assms by (simp add: recommendedModel_analyze getRecommendedModel_def)
  with assms show ?thesis
    by (simp add: execute_codeflow_def Let_def split: sum.splits)
qed

text \<open>Below a total of 6 (and from 2 on) \<open>IntelligenceRouter.execute\<close> is
  \<open>executeWithOllama\<close>: no validation, no call of Claude.\<close>

lemma execute_simple:
  "2 \<le> score (analyze task) \<Longrightarrow> score (analyze task) < 6 \<Longrightarrow>
   execute rt config ollamaP claudeP task = executeWithOllama config ollamaP task"
  by (simp add: execute_def Let_def)

text \<open>With the fallback switched off, a total of 6 or 7 goes to Claude alone.\<close>

lemma execute_moderate_without_fallback:
  "6 \<le> score (analyze task) \<Longrightarrow> \<not> ollamaFallback config \<Longrightarrow>
   execute rt config ollamaP claudeP task =
     ([claude_execute], provider_execute claudeP 0 task None)"
  by (simp add: execute_def Let_def executeWithClaude_def)

text \<open>In the band from 6 below 8, with the fallback switched on, an Ollama that is not
  available, that throws, or whose answer fails validation is followed by the Claude
  call; an answer of Ollama is returned only if it passes validation.\<close>

lemma execute_moderate_fallback:
  assumes "6 \<le> score (analyze task)" and "score (analyze task) < 8" and "ollamaFallback config"
  shows "execute rt config ollamaP claudeP task =
           (if \<not> provider_isAvailable ollamaP
            then ([ollama_isAvailable, claude_execute], provider_execute claudeP 0 task None)
            else (case provider_execute ollamaP 0 task
                         (Some \<lparr> temperature = Some 0.1, timeout = Some (ollamaTimeout config),
                                 maxTokens = None \<rparr>) of
                    Inl error \<Rightarrow>
                      ([ollama_isAvailable, ollama_execute, claude_execute],
                       provider_execute claudeP 0 task None)
                  | Inr result \<Rightarrow>
                      if validate rt result task
                      then ([ollama_isAvailable, ollama_execute], Inr result)
                      else ([ollama_isAvailable, ollama_execute, claude_execute],
                            provider_execute claudeP 0 task None)))"
  using assms
  by (simp add: execute_def Let_def executeWithOllama_def executeWithClaude_def andThen_def
           split: sum.splits)

text \<open>The version of the router specification does the same for every total from 2
  below 8: when Ollama is available and throws and Claude answers, the answer of Claude is
  returned after one \<open>execute\<close> of each.\<close>

lemma execute_codeflow_fallback:
  assumes "2 \<le> score (analyze task)" and "score (analyze task) < 8"
    and "ollamaFallback config" and "provider_isAvailable ollamaP"
    and "provider_execute ollamaP 0 task
           (Some \<lparr> temperature = Some 0.1, timeout = Some (ollamaTimeout config),
                   maxTokens = None \<rparr>) = Inl error"
    and "provider_execute claudeP 0 task None = Inr result"
  shows "execute_codeflow rt config ollamaP claudeP task =
           ([ollama_isAvailable, ollama_execute, claude_execute, recordUsage result], Inr result)"
proof -
  have "recommendedModel (analyze task) \<noteq> none"
    using assms(1) by (simp add: recommendedModel_analyze getRecommendedModel_def)
  with assms show ?thesis
    by (simp add: execute_codeflow_def Let_def tryOllama_def)
qed

text \<open>
  C1: a total of at least 7 calls Claude alone. Both versions of \<open>execute\<close> guard the
  attempt with Ollama by \<open>score < 8\<close>: a workflow-compilation task, whose total is 7 and
  whose recommended model is \<open>claude\<close>, is answered by Ollama without any call of Claude.
\<close>

theorem C1_total_seven_is_tried_on_ollama:
  "score (analyze (exampleTask workflow_compilation ''Convert chat to workflow'')) = 7 \<and>
   recommendedModel (analyze (exampleTask workflow_compilation ''Convert chat to workflow'')) =
     claude \<and>
   execute exampleRuntime exampleConfig (answering used_ollama ''Done'')
       (answering used_claude ''Done'')
       (exampleTask workflow_compilation ''Convert chat to workflow'') =
     ([ollama_isAvailable, ollama_execute], Inr (exampleResponse used_ollama ''Done'')) \<and>
   execute_codeflow exampleRuntime exampleConfig (answering used_ollama ''Done'')
       (answering used_claude ''Done'')
       (exampleTask workflow_compilation ''Convert chat to workflow'') =
     ([ollama_isAvailable, ollama_execute, recordUsage (exampleResponse used_ollama ''Done'')],
      Inr (exampleResponse used_ollama ''Done''))"
  by code_simp

text \<open>
  C2: for a total from 2 below 7, a failure of Ollama or of the validation is followed by
  Claude. \<open>IntelligenceRouter.execute\<close> returns what \<open>executeWithOllama\<close> gives for every
  total below 6: for the extraction task of the specification's own fallback test (total
  2) the error of a throwing Ollama reaches the caller and Claude is never called, and an
  answer that fails validation is returned as it is.
\<close>

theorem C2_total_below_six_has_no_fallback:
  "score (analyze extractDataTask) = 2 \<and>
   ollamaFallback exampleConfig \<and>
   execute exampleRuntime exampleConfig throwing (answering used_claude ''{}'') extractDataTask =
     ([ollama_isAvailable, ollama_execute], Inl (Error ''connect ECONNREFUSED'')) \<and>
   \<not> validate exampleRuntime (exampleResponse used_ollama ''not valid json'') extractDataTask \<and>
   execute exampleRuntime exampleConfig (answering used_ollama ''not valid json'')
       (answering used_claude ''{}'') extractDataTask =
     ([ollama_isAvailable, ollama_execute], Inr (exampleResponse used_ollama ''not valid json''))"
  by code_simp

text \<open>
  C8: a task whose total is below 2 makes \<open>execute\<close> fail at once with the error for a
  deterministic task, and no method of either provider is called.
\<close>

theorem C8_deterministic_task_rejected:
  assumes "score (analyze task) < 2"
  shows "execute rt config ollamaP claudeP task =
           ([], Inl (Error ''Deterministic tasks should not use LLM router'')) \<and>
         execute_codeflow rt config ollamaP claudeP task =
           ([], Inl (Error ''Task is deterministic, should not use LLM router''))"
proof -
  have "recommendedModel (analyze task) = none"
    using assms by (simp add: recommendedModel_analyze getRecommendedModel_def)
  then show ?thesis using assms by (simp add: execute_def execute_codeflow_def Let_def)
qed

text \<open>Witness of C8: a classification task, total 1.\<close>

theorem C8_deterministic_task_rejected_witness:
  "score (analyze (exampleTask classification ''Is this urgent'')) < 2 \<and>
   execute exampleRuntime exampleConfig (answering used_ollama ''yes'')
       (answering used_claude ''yes'') (exampleTask classification ''Is this urgent'') =
     ([], Inl (Error ''Deterministic tasks should not use LLM router''))"
proof -
  have h: "score (analyze (exampleTask classification ''Is this urgent'')) < 2" by code_simp
  from C8_deterministic_task_rejected [OF h] h show ?thesis by blast
qed

section \<open>Cost ledger: properties\<close>











end
